theory Spec2Isabelle
  imports Complex_Main "HOL-Library.Sublist"
begin

section \<open>Python exceptions\<close>

text \<open>
  Every raise of the Python source is a value: a function that can raise returns
  \<open>error + 'a\<close>, with \<open>Inl\<close> for the exception.
\<close>

datatype error = KeyError | IndexError | ValueError | AttributeError

section \<open>projector/projector_gaussian.py: the radial functions\<close>

text \<open>
  numpy's float64 arrays are modelled as lists of reals: rounding, overflow and NaN are
  outside the model. \<open>GAMMA\<close> is the module-level table: seven entries, for \<open>l = 0..6\<close>.
\<close>

definition GAMMA :: "real list" where
  "GAMMA = map (\<lambda>q. q * sqrt pi)
     [1/2, 3/4, 15/8, 105/16, 945/32, 10395/64, 135135/128]"

text \<open>\<open>np.max(r_o)\<close>: the largest entry; numpy raises ValueError on an empty array.\<close>

definition np_max :: "real list \<Rightarrow> error + real" where
  "np_max xs = (case xs of [] \<Rightarrow> Inl ValueError | x # ys \<Rightarrow> Inr (fold max ys x))"

text \<open>The envelope \<open>1-(.5*(1-np.cos(np.pi*r/np.max(r_o))))**8\<close> at one radius.\<close>

definition fc :: "real \<Rightarrow> real \<Rightarrow> real" where
  "fc rmax x = 1 - (0.5 * (1 - cos (pi * x / rmax))) ^ 8"

text \<open>
  The summand of \<open>N\<close> in the loop: \<open>(2*a)**(l/2+3/4)*np.sqrt(2)/np.sqrt(GAMMA[l])\<close>.
  \<open>GAMMA[l]\<close> is checked for its range in \<open>g_loop\<close>.
\<close>

definition norm_const :: "nat \<Rightarrow> real \<Rightarrow> real" where
  "norm_const l a = (2 * a) powr (real l / 2 + 3 / 4) * sqrt 2 / sqrt (GAMMA ! l)"

text \<open>
  The loop \<open>for a, c in zip(alpha, coeff)\<close> with its two accumulators: the scalar \<open>N\<close> and
  the array \<open>f\<close>. \<open>GAMMA[l]\<close> raises IndexError when \<open>l\<close> is beyond the table.
\<close>

fun g_loop :: "real list \<Rightarrow> nat \<Rightarrow> (real \<times> real) list \<Rightarrow> real \<Rightarrow> real list
    \<Rightarrow> error + (real \<times> real list)" where
  "g_loop r l [] N f = Inr (N, f)"
| "g_loop r l ((a, c) # acs) N f =
     (if l < length GAMMA
      then g_loop r l acs (N + norm_const l a)
             (map (\<lambda>(fx, x). fx + exp (- a * x ^ 2) * c) (zip f r))
      else Inl IndexError)"

text \<open>
  \<open>GaussianProjector.g(r, r_o, alpha, l, coeff)\<close>. After the loop, \<open>f *= (r**l*fc*N)\<close> and
  then \<open>f[r>np.max(r_o)] = 0\<close>.
\<close>

definition g :: "real list \<Rightarrow> real list \<Rightarrow> real list \<Rightarrow> nat \<Rightarrow> real list \<Rightarrow> error + real list" where
  "g r r_o alpha l coeff =
     (case np_max r_o of
        Inl e \<Rightarrow> Inl e
      | Inr rmax \<Rightarrow>
          (case g_loop r l (zip alpha coeff) 0 (map (\<lambda>_. 0) r) of
             Inl e \<Rightarrow> Inl e
           | Inr (N, f) \<Rightarrow>
               Inr (map (\<lambda>(fx, x). if x > rmax then 0 else fx * (x ^ l * fc rmax x * N))
                      (zip f r))))"

text \<open>
  The formula of the specification for \<open>g\<close>: every primitive carries its own normalisation
  constant inside the sum.
\<close>

definition g_spec :: "real list \<Rightarrow> real \<Rightarrow> real list \<Rightarrow> nat \<Rightarrow> real list \<Rightarrow> real list" where
  "g_spec r rmax alpha l coeff =
     map (\<lambda>x. (\<Sum>(a, c) \<leftarrow> zip alpha coeff. norm_const l a * c * exp (- a * x ^ 2))
               * x ^ l * fc rmax x) r"

text \<open>
  One entry of the array that \<open>g\<close> returns, in closed form: what the loop and the two
  statements after it leave at a radius \<open>x\<close>.
\<close>

definition g_entry :: "real \<Rightarrow> real list \<Rightarrow> nat \<Rightarrow> real list \<Rightarrow> real \<Rightarrow> real" where
  "g_entry rmax alpha l coeff x =
     (if x > rmax then 0
      else (\<Sum>(a, c) \<leftarrow> zip alpha coeff. exp (- a * x ^ 2) * c)
           * (x ^ l * fc rmax x * (\<Sum>(a, c) \<leftarrow> zip alpha coeff. norm_const l a)))"


section \<open>numpy and dict operations used by pyscf/pyscf.py\<close>

text \<open>Sequencing of computations that can raise.\<close>

definition ebind :: "error + 'a \<Rightarrow> ('a \<Rightarrow> error + 'b) \<Rightarrow> error + 'b" where
  "ebind m f = (case m of Inl e \<Rightarrow> Inl e | Inr x \<Rightarrow> f x)"

text \<open>
  A Python dict whose order matters is an association list with distinct keys in insertion
  order: \<open>d[k]\<close> raises KeyError on a missing key, \<open>d[k] = v\<close> replaces in place or appends.
\<close>

definition dict_get :: "('k \<times> 'v) list \<Rightarrow> 'k \<Rightarrow> error + 'v" where
  "dict_get d k = (case map_of d k of None \<Rightarrow> Inl KeyError | Some v \<Rightarrow> Inr v)"

fun dict_set :: "('k \<times> 'v) list \<Rightarrow> 'k \<Rightarrow> 'v \<Rightarrow> ('k \<times> 'v) list" where
  "dict_set [] k v = [(k, v)]"
| "dict_set ((k', v') # d) k v =
     (if k' = k then (k, v) # d else (k', v') # dict_set d k v)"

text \<open>A dict whose order is never read is a map; \<open>m[k]\<close> raises KeyError on a missing key.\<close>

definition map_get :: "('k \<rightharpoonup> 'v) \<Rightarrow> 'k \<Rightarrow> error + 'v" where
  "map_get m k = (case m k of None \<Rightarrow> Inl KeyError | Some v \<Rightarrow> Inr v)"

text \<open>\<open>xs[i]\<close> for an index that is never negative: IndexError from the length on.\<close>

definition list_get :: "'a list \<Rightarrow> nat \<Rightarrow> error + 'a" where
  "list_get xs i = (if i < length xs then Inr (xs ! i) else Inl IndexError)"

text \<open>\<open>a[s:e]\<close> on a one-dimensional array, for \<open>0 \<le> s\<close> and \<open>0 \<le> e\<close>: the bounds are clamped.\<close>

definition py_slice :: "nat \<Rightarrow> nat \<Rightarrow> 'a list \<Rightarrow> 'a list" where
  "py_slice s e xs = drop s (take e xs)"

text \<open>
  One integer index into an axis of length \<open>n\<close>: numpy accepts \<open>-n \<le> i < n\<close>, counting a
  negative index from the end, and raises IndexError otherwise.
\<close>

definition np_index :: "nat \<Rightarrow> int \<Rightarrow> error + nat" where
  "np_index n i =
     (if 0 \<le> i \<and> i < int n then Inr (nat i)
      else if - int n \<le> i \<and> i < 0 then Inr (nat (i + int n))
      else Inl IndexError)"

fun np_indices :: "nat \<Rightarrow> int list \<Rightarrow> error + nat list" where
  "np_indices n [] = Inr []"
| "np_indices n (i # js) =
     ebind (np_index n i) (\<lambda>j. ebind (np_indices n js) (\<lambda>ks. Inr (j # ks)))"

text \<open>
  \<open>np.array(xs) - s\<close> for a list of integers \<open>xs\<close>, as an index array. \<open>np.array([])\<close> is an
  array of floats, which numpy refuses as an index (IndexError).
\<close>

definition np_index_array :: "nat list \<Rightarrow> nat \<Rightarrow> error + int list" where
  "np_index_array xs s =
     (if xs = [] then Inl IndexError else Inr (map (\<lambda>i. int i - int s) xs))"

text \<open>\<open>a[idx]\<close> for an integer index array \<open>idx\<close>.\<close>

definition np_take :: "'a list \<Rightarrow> int list \<Rightarrow> error + 'a list" where
  "np_take xs idx = ebind (np_indices (length xs) idx) (\<lambda>js. Inr (map (\<lambda>j. xs ! j) js))"

text \<open>
  Broadcasting a one-dimensional value to length \<open>k\<close> in an assignment: the lengths agree,
  or the value has length 1 and is repeated; otherwise ValueError.
\<close>

definition np_broadcast :: "nat \<Rightarrow> 'a list \<Rightarrow> error + 'a list" where
  "np_broadcast k vals =
     (if length vals = k then Inr vals
      else (case vals of [v] \<Rightarrow> Inr (replicate k v) | _ \<Rightarrow> Inl ValueError))"

text \<open>
  \<open>row[mask]\<close> for a Python list of booleans \<open>mask\<close>: the selected entries in order. The
  mask must be as long as the row (IndexError); an empty list is an empty integer index
  and selects nothing.
\<close>

definition np_mask_get :: "'a list \<Rightarrow> bool list \<Rightarrow> error + 'a list" where
  "np_mask_get row msk =
     (if msk = [] then Inr []
      else if length msk \<noteq> length row then Inl IndexError
      else Inr (map fst (filter snd (zip row msk))))"

fun mask_put :: "'a list \<Rightarrow> bool list \<Rightarrow> 'a list \<Rightarrow> 'a list" where
  "mask_put (x # row) (True # msk) (v # vals) = v # mask_put row msk vals"
| "mask_put (x # row) (False # msk) vals = x # mask_put row msk vals"
| "mask_put row msk vals = row"

text \<open>\<open>row[mask] = vals\<close>: the selected entries are replaced in order.\<close>

definition np_mask_set :: "'a list \<Rightarrow> bool list \<Rightarrow> 'a list \<Rightarrow> error + 'a list" where
  "np_mask_set row msk vals =
     (if msk = [] then ebind (np_broadcast 0 vals) (\<lambda>_. Inr row)
      else if length msk \<noteq> length row then Inl IndexError
      else ebind (np_broadcast (length (filter id msk)) vals)
             (\<lambda>vs. Inr (mask_put row msk vs)))"

fun np_put :: "'a list \<Rightarrow> nat list \<Rightarrow> 'a list \<Rightarrow> 'a list" where
  "np_put xs (j # js) (v # vs) = np_put (xs[j := v]) js vs"
| "np_put xs js vs = xs"

text \<open>
  \<open>out[s:e][idx] = vals\<close>: \<open>out[s:e]\<close> is a view, so the assignment writes into \<open>out\<close>; the
  indices are relative to the view and checked against its length; of two writes to one
  position the later stays.
\<close>

definition np_slice_put :: "'a list \<Rightarrow> nat \<Rightarrow> nat \<Rightarrow> int list \<Rightarrow> 'a list \<Rightarrow> error + 'a list" where
  "np_slice_put out s e idx vals =
     ebind (np_indices (length (py_slice s e out)) idx) (\<lambda>js.
     ebind (np_broadcast (length js) vals) (\<lambda>vs.
       Inr (np_put out (map (\<lambda>j. s + j) js) vs)))"

text \<open>
  The arrays of padded coefficients that \<open>unpad_basis\<close> and \<open>get_V\<close> receive have two
  dimensions (atoms, slots) or three (a leading axis before them). A two-dimensional array is
  the list of its rows.
\<close>

datatype 'a ndarray = Arr2 "'a list list" | Arr3 "'a list list list"

text \<open>\<open>a[:, lo:hi]\<close>: the slice along the second axis.\<close>

fun slice_axis1 :: "nat \<Rightarrow> nat \<Rightarrow> 'a ndarray \<Rightarrow> 'a ndarray" where
  "slice_axis1 lo hi (Arr2 rows) = Arr2 (map (py_slice lo hi) rows)"
| "slice_axis1 lo hi (Arr3 mats) = Arr3 (map (py_slice lo hi) mats)"

text \<open>
  \<open>np.concatenate(arrays, axis=0)\<close> of two-dimensional arrays: ValueError for an empty
  list of arrays and for rows of different widths.
\<close>

definition np_concatenate0 :: "'a list list list \<Rightarrow> error + 'a list list" where
  "np_concatenate0 arrays =
     (let rows = concat arrays in
      if arrays = [] then Inl ValueError
      else if list_all (\<lambda>row. length row = length (hd rows)) rows then Inr rows
      else Inl ValueError)"

section \<open>pyscf/pyscf.py: BasisPadder\<close>

text \<open>
  What \<open>BasisPadder\<close> reads of the pyscf \<open>Mole\<close> object (an object of the external library):
  \<^item> \<open>atom_pure_symbol\<close>: the symbol of each atom; \<open>mol.atom_charges()\<close> has the same length;
  \<^item> \<open>ao_labels_nofmt\<close>: \<open>mol.ao_labels(fmt=False)\<close>, one tuple per atomic orbital: atom index,
    symbol, the number \<open>n\<close> and the letter of \<open>label[2]\<close> (pyscf builds that string from the
    two), and the name of the magnetic quantum number;
  \<^item> \<open>ao_labels\<close>: \<open>mol.ao_labels()\<close>, the same labels as formatted strings;
  \<^item> \<open>aoslice_by_atom\<close>: per atom the columns \<open>slice[-2]\<close> and \<open>slice[-1]\<close>, the first orbital
    of the atom and the one after its last.
\<close>

record mol =
  atom_pure_symbol :: "string list"
  ao_labels_nofmt :: "(nat \<times> string \<times> nat \<times> char \<times> string) list"
  ao_labels :: "string list"
  aoslice_by_atom :: "(nat \<times> nat) list"

definition l_dict :: "(char \<times> nat) list" where
  "l_dict = [(CHR ''s'', 0), (CHR ''p'', 1), (CHR ''d'', 2), (CHR ''f'', 3),
             (CHR ''g'', 4), (CHR ''h'', 5), (CHR ''i'', 6), (CHR ''j'', 7)]"

definition l_dict_inv :: "(nat \<times> char) list" where
  "l_dict_inv = map (\<lambda>(key, l). (l, key)) l_dict"

record BasisPadder =
  bp_mol :: mol
  sym_cnt :: "(string \<times> nat) list"
  max_l :: "(string \<times> nat) list"
  max_n :: "(string \<times> nat) list"
  indexing_l :: "(string \<times> bool list list) list"
  indexing_r :: "(string \<times> nat list list) list"

text \<open>The dict comprehension \<open>{sym: value(sym) for sym in keys}\<close>.\<close>

fun dict_comp_loop :: "'k list \<Rightarrow> ('k \<Rightarrow> error + 'v) \<Rightarrow> ('k \<times> 'v) list
    \<Rightarrow> error + ('k \<times> 'v) list" where
  "dict_comp_loop [] f d = Inr d"
| "dict_comp_loop (k # ks) f d = ebind (f k) (\<lambda>v. dict_comp_loop ks f (dict_set d k v))"

definition dict_comp :: "'k list \<Rightarrow> ('k \<Rightarrow> error + 'v) \<Rightarrow> error + ('k \<times> 'v) list" where
  "dict_comp ks f = dict_comp_loop ks f []"

text \<open>A \<open>for\<close> loop whose body can raise: the state is threaded until the first error.\<close>

fun efold :: "('s \<Rightarrow> 'x \<Rightarrow> error + 's) \<Rightarrow> 'x list \<Rightarrow> 's \<Rightarrow> error + 's" where
  "efold f [] s = Inr s"
| "efold f (x # xs) s = ebind (f s x) (efold f xs)"


subsection \<open>pad_basis\<close>

text \<open>
  The dict of zero arrays \<open>np.zeros([sym_cnt[sym], max_n[sym] * (max_l[sym] + 1)**2])\<close>, one
  per key of \<open>indexing_l\<close>.
\<close>

definition pad_zeros :: "BasisPadder \<Rightarrow> error + (string \<times> 'a::zero list list) list" where
  "pad_zeros self =
     dict_comp (map fst (indexing_l self)) (\<lambda>sym.
       ebind (dict_get (sym_cnt self) sym) (\<lambda>cnt.
       ebind (dict_get (max_n self) sym) (\<lambda>n.
       ebind (dict_get (max_l self) sym) (\<lambda>l.
         Inr (replicate cnt (replicate (n * (l + 1) ^ 2) 0))))))"

text \<open>\<open>cnt = {sym: 0 for sym in self.indexing_l}\<close>.\<close>

definition cnt_init :: "BasisPadder \<Rightarrow> (string \<rightharpoonup> nat)" where
  "cnt_init self = map_of (map (\<lambda>(sym, _). (sym, 0)) (indexing_l self))"

text \<open>
  The body of the loop over \<open>enumerate(self.mol.aoslice_by_atom())\<close> in \<open>pad_basis\<close>. Python
  evaluates the right-hand side of the assignment first, then the target and its indices.
\<close>

definition pad_atom :: "BasisPadder \<Rightarrow> 'a list
    \<Rightarrow> (string \<rightharpoonup> nat) \<times> (string \<times> 'a list list) list \<Rightarrow> nat \<times> nat \<times> nat
    \<Rightarrow> error + ((string \<rightharpoonup> nat) \<times> (string \<times> 'a list list) list)" where
  "pad_atom self coeff st a =
     (case st of (cnt, coeff_out) \<Rightarrow> case a of (aidx, s, e) \<Rightarrow>
       ebind (list_get (atom_pure_symbol (bp_mol self)) aidx) (\<lambda>sym.
       ebind (dict_get (indexing_r self) sym) (\<lambda>idx_r.
       ebind (map_get cnt sym) (\<lambda>c.
       ebind (list_get idx_r c) (\<lambda>idx.
       ebind (np_index_array idx s) (\<lambda>rel.
       ebind (np_take (py_slice s e coeff) rel) (\<lambda>vals.
       ebind (dict_get coeff_out sym) (\<lambda>rows.
       ebind (dict_get (indexing_l self) sym) (\<lambda>idx_l.
       ebind (list_get idx_l c) (\<lambda>msk.
       ebind (list_get rows c) (\<lambda>row.
       ebind (np_mask_set row msk vals) (\<lambda>row'.
         Inr (cnt(sym \<mapsto> c + 1), dict_set coeff_out sym (rows[c := row']))))))))))))))"

definition pad_basis :: "BasisPadder \<Rightarrow> 'a::zero list \<Rightarrow> error + (string \<times> 'a list list) list" where
  "pad_basis self coeff =
     ebind (pad_zeros self) (\<lambda>coeff_out.
     ebind (efold (pad_atom self coeff) (enumerate 0 (aoslice_by_atom (bp_mol self)))
              (cnt_init self, coeff_out)) (\<lambda>st.
       Inr (snd st)))"

subsection \<open>unpad_basis\<close>

text \<open>\<open>if coeff_in.ndim == 3: coeff_in = coeff_in[0]\<close>.\<close>

definition first_if_3d :: "'a ndarray \<Rightarrow> error + 'a list list" where
  "first_if_3d coeff_in = (case coeff_in of Arr2 rows \<Rightarrow> Inr rows | Arr3 mats \<Rightarrow> list_get mats 0)"

definition unpad_atom :: "BasisPadder \<Rightarrow> (string \<rightharpoonup> 'a ndarray)
    \<Rightarrow> (string \<rightharpoonup> nat) \<times> 'a list \<Rightarrow> nat \<times> nat \<times> nat
    \<Rightarrow> error + ((string \<rightharpoonup> nat) \<times> 'a list)" where
  "unpad_atom self coeff st a =
     (case st of (cnt, coeff_out) \<Rightarrow> case a of (aidx, s, e) \<Rightarrow>
       ebind (list_get (atom_pure_symbol (bp_mol self)) aidx) (\<lambda>sym.
       ebind (map_get coeff sym) (\<lambda>coeff_in.
       ebind (first_if_3d coeff_in) (\<lambda>rows.
       ebind (map_get cnt sym) (\<lambda>c.
       ebind (dict_get (indexing_l self) sym) (\<lambda>idx_l.
       ebind (list_get idx_l c) (\<lambda>msk.
       ebind (list_get rows c) (\<lambda>row.
       ebind (np_mask_get row msk) (\<lambda>vals.
       ebind (dict_get (indexing_r self) sym) (\<lambda>idx_r.
       ebind (list_get idx_r c) (\<lambda>idx.
       ebind (np_index_array idx s) (\<lambda>rel.
       ebind (np_slice_put coeff_out s e rel vals) (\<lambda>coeff_out'.
         Inr (cnt(sym \<mapsto> c + 1), coeff_out'))))))))))))))"

definition unpad_basis :: "BasisPadder \<Rightarrow> (string \<rightharpoonup> 'a::zero ndarray) \<Rightarrow> error + 'a list" where
  "unpad_basis self coeff =
     ebind (efold (unpad_atom self coeff) (enumerate 0 (aoslice_by_atom (bp_mol self)))
              (cnt_init self, replicate (length (ao_labels (bp_mol self))) 0)) (\<lambda>st.
       Inr (snd st))"

text \<open>The dict that \<open>pad_basis\<close> returns, as \<open>unpad_basis\<close> reads it.\<close>

definition as_coeff :: "(string \<times> 'a list list) list \<Rightarrow> (string \<rightharpoonup> 'a ndarray)" where
  "as_coeff d = map_of (map (\<lambda>(sym, rows). (sym, Arr2 rows)) d)"

section \<open>pyscf/pyscf.py: PySCFProjector\<close>

record PySCFProjector =
  spec_agnostic :: bool
  delta :: bool
  dm_init :: "real list list"
  eri3c :: "real list list list"
  bp :: BasisPadder
  spec_partition :: "(string \<times> nat) list option"

text \<open>
  \<open>get_coeff(dm, eri3c)\<close> is \<open>np.einsum('ijk, ij -> k', eri3c, dm)\<close>, and the last step of
  \<open>get_V\<close> is \<open>np.einsum('ijk, k', self.eri3c, dEdC)\<close>; both for operands whose shapes agree.
\<close>

definition get_coeff :: "real list list \<Rightarrow> real list list list \<Rightarrow> real list" where
  "get_coeff dm eri =
     map (\<lambda>k. \<Sum>(e_i, dm_i) \<leftarrow> zip eri dm. \<Sum>(e_ij, dm_ij) \<leftarrow> zip e_i dm_i. e_ij ! k * dm_ij)
       [0 ..< (case eri of [] \<Rightarrow> 0 | e_i # _ \<Rightarrow> (case e_i of [] \<Rightarrow> 0 | e_ij # _ \<Rightarrow> length e_ij))]"

definition einsum_ijk_k :: "real list list list \<Rightarrow> real list \<Rightarrow> real list list" where
  "einsum_ijk_k eri d = map (map (\<lambda>e_ij. \<Sum>(x, y) \<leftarrow> zip e_ij d. x * y)) eri"

text \<open>
  The species-agnostic step of \<open>get_basis_rep\<close>:
  \<open>self.spec_partition = {sym: len(coeff[sym]) for sym in coeff}\<close> and
  \<open>np.concatenate([coeff[sym] for sym in coeff], axis=0)\<close>. The partition is stored before
  the concatenation is tried.
\<close>

definition concat_species :: "(string \<times> 'a list list) list
    \<Rightarrow> (string \<times> nat) list \<times> (error + 'a list list)" where
  "concat_species coeff =
     (map (\<lambda>(sym, rows). (sym, length rows)) coeff, np_concatenate0 (map snd coeff))"

text \<open>
  \<open>PySCFProjector.get_basis_rep(dm)\<close>: the result and the projector after the call (in
  species-agnostic mode the call stores \<open>self.spec_partition\<close>).
\<close>

definition PySCFProjector_get_basis_rep :: "PySCFProjector \<Rightarrow> real list list
    \<Rightarrow> (error + (string \<times> real list list) list) \<times> PySCFProjector" where
  "PySCFProjector_get_basis_rep self dm =
     (let dm1 = (if delta self
                 then map (\<lambda>(row, row0). map (\<lambda>(x, x0). x - x0) (zip row row0)) (zip dm (dm_init self))
                 else dm)
      in case pad_basis (bp self) (get_coeff dm1 (eri3c self)) of
           Inl err \<Rightarrow> (Inl err, self)
         | Inr coeff \<Rightarrow>
             if spec_agnostic self
             then (case concat_species coeff of
                     (part, res) \<Rightarrow>
                       (case res of
                          Inl err \<Rightarrow> (Inl err, self\<lparr>spec_partition := Some part\<rparr>)
                        | Inr coeff_agn \<Rightarrow>
                            (Inr [(''X'', coeff_agn)], self\<lparr>spec_partition := Some part\<rparr>)))
             else (Inr coeff, self))"

text \<open>
  The loop of \<open>get_V\<close> over \<open>self.spec_partition\<close>, on the dict \<open>dEdC\<close> of the caller: it
  returns the dict as the loop leaves it, also when \<open>dEdC['X']\<close> raises.
\<close>

fun split_species :: "(string \<times> nat) list \<Rightarrow> nat \<Rightarrow> (string \<rightharpoonup> 'a ndarray)
    \<Rightarrow> (error + unit) \<times> (string \<rightharpoonup> 'a ndarray)" where
  "split_species [] running_idx dEdC = (Inr (), dEdC)"
| "split_species ((symb, n) # rest) running_idx dEdC =
     (case dEdC ''X'' of
        None \<Rightarrow> (Inl KeyError, dEdC)
      | Some x \<Rightarrow>
          split_species rest (running_idx + n)
            (dEdC(symb \<mapsto> slice_axis1 running_idx (running_idx + n) x)))"

definition get_V_unpad :: "PySCFProjector \<Rightarrow> (string \<rightharpoonup> real ndarray)
    \<Rightarrow> (error + real list list) \<times> (string \<rightharpoonup> real ndarray)" where
  "get_V_unpad self dEdC =
     (case unpad_basis (bp self) dEdC of
        Inl err \<Rightarrow> (Inl err, dEdC)
      | Inr c \<Rightarrow> (Inr (einsum_ijk_k (eri3c self) c), dEdC))"

text \<open>
  \<open>PySCFProjector.get_V(dEdC)\<close>: the result \<open>V\<close> and the dict of the caller after the call.
  \<open>dEdC = self.bp.unpad_basis(dEdC)\<close> only rebinds the local name.
\<close>

definition get_V :: "PySCFProjector \<Rightarrow> (string \<rightharpoonup> real ndarray)
    \<Rightarrow> (error + real list list) \<times> (string \<rightharpoonup> real ndarray)" where
  "get_V self dEdC =
     (if spec_agnostic self
      then (case spec_partition self of
              None \<Rightarrow> (Inl AttributeError, dEdC)
            | Some part \<Rightarrow>
                (case split_species part 0 dEdC of
                   (Inl err, d) \<Rightarrow> (Inl err, d)
                 | (Inr _, d) \<Rightarrow>
                     (case d ''X'' of
                        None \<Rightarrow> (Inl KeyError, d)
                      | Some _ \<Rightarrow> get_V_unpad self (d(''X'' := None)))))
      else get_V_unpad self dEdC)"

subsection \<open>BasisPadder.__init__\<close>

fun emap :: "('x \<Rightarrow> error + 'y) \<Rightarrow> 'x list \<Rightarrow> error + 'y list" where
  "emap f [] = Inr []"
| "emap f (x # xs) = ebind (f x) (\<lambda>y. ebind (emap f xs) (\<lambda>ys. Inr (y # ys)))"

text \<open>The first loop: atoms per species, \<open>sym_cnt\<close> and \<open>sym_idx\<close>.\<close>

definition count_atom :: "(string \<times> nat) list \<times> (string \<times> nat list) list \<Rightarrow> nat \<times> string
    \<Rightarrow> error + ((string \<times> nat) list \<times> (string \<times> nat list) list)" where
  "count_atom st a =
     (case st of (sym_cnt0, sym_idx0) \<Rightarrow> case a of (atom_idx, symb) \<Rightarrow>
       (let sym_cnt1 = (if map_of sym_cnt0 symb = None then dict_set sym_cnt0 symb 0 else sym_cnt0);
            sym_idx1 = (if map_of sym_cnt0 symb = None then dict_set sym_idx0 symb [] else sym_idx0)
        in ebind (dict_get sym_idx1 symb) (\<lambda>idxs.
           ebind (dict_get sym_cnt1 symb) (\<lambda>c.
             Inr (dict_set sym_cnt1 symb (c + 1), dict_set sym_idx1 symb (idxs @ [atom_idx]))))))"

text \<open>
  The second loop, over \<open>mol.ao_labels(fmt=False)\<close>: the largest \<open>n\<close> and \<open>l\<close> per species.
  \<open>int(label[2][:-1])\<close> is the number of the label, \<open>label[2][-1]\<close> its letter.
\<close>

definition max_label :: "(string \<times> nat) list \<times> (string \<times> nat) list
    \<Rightarrow> nat \<times> string \<times> nat \<times> char \<times> string
    \<Rightarrow> error + ((string \<times> nat) list \<times> (string \<times> nat) list)" where
  "max_label st label =
     (case st of (max_l0, max_n0) \<Rightarrow> case label of (ia, symb, n, c, m) \<Rightarrow>
       (let max_l1 = (if map_of max_l0 symb = None then dict_set max_l0 symb 0 else max_l0);
            max_n1 = (if map_of max_l0 symb = None then dict_set max_n0 symb 0 else max_n0)
        in ebind (dict_get max_n1 symb) (\<lambda>mn.
           ebind (dict_get l_dict c) (\<lambda>l.
           ebind (dict_get max_l1 symb) (\<lambda>ml.
             Inr (dict_set max_l1 symb (max l ml), dict_set max_n1 symb (max n mn)))))))"

text \<open>Python's decimal text of a natural number, as \<open>'{}'.format\<close> writes it.\<close>

definition digit :: "nat \<Rightarrow> char" where
  "digit d = ''0123456789'' ! d"

fun dec :: "nat \<Rightarrow> string" where
  "dec n = (if n < 10 then [digit n] else dec (n div 10) @ [digit (n mod 10)])"

declare dec.simps [simp del]

text \<open>\<open>'{} {} {}{}'.format(idx, sym, n, l_dict_inv[l])\<close>, given the letter.\<close>

definition fmt_query :: "nat \<Rightarrow> string \<Rightarrow> nat \<Rightarrow> char \<Rightarrow> string" where
  "fmt_query idx symb n c = dec idx @ '' '' @ symb @ '' '' @ dec n @ [c]"

text \<open>\<open>np.where(hits)[0][0]\<close> for a list with a true entry: the index of the first one.\<close>

definition first_hit :: "bool list \<Rightarrow> nat" where
  "first_hit hits = length (takeWhile (\<lambda>b. \<not> b) hits)"

text \<open>
  The body of the innermost loop for one pair \<open>(n, l)\<close>: what is appended to
  \<open>indexing_left[sym][-1]\<close> and to \<open>indexing_right[sym][-1]\<close>. \<open>x in lab\<close> on strings is the
  test for a contiguous substring.
\<close>

definition shell_entry :: "string list \<Rightarrow> nat \<Rightarrow> string \<Rightarrow> nat \<times> nat
    \<Rightarrow> error + (bool list \<times> nat list)" where
  "shell_entry labels idx symb nl =
     (case nl of (n, l) \<Rightarrow>
       ebind (dict_get l_dict_inv l) (\<lambda>c.
         (let hits = map (sublist (fmt_query idx symb n c)) labels
          in if list_ex id hits
             then Inr (replicate (2 * l + 1) True,
                       [first_hit hits ..< first_hit hits + (2 * l + 1)])
             else Inr (replicate (2 * l + 1) False, []))))"

text \<open>
  The loops \<open>for n in range(1, max_n[sym] + 1): for l in range(max_l[sym] + 1)\<close> for one
  atom: the two lists grow by the entries of the pairs in this order.
\<close>

definition atom_entry :: "string list \<Rightarrow> string \<Rightarrow> nat \<Rightarrow> nat \<Rightarrow> nat
    \<Rightarrow> error + (bool list \<times> nat list)" where
  "atom_entry labels symb mn ml idx =
     efold (\<lambda>acc nl. ebind (shell_entry labels idx symb nl)
                       (\<lambda>ent. Inr (fst acc @ fst ent, snd acc @ snd ent)))
       (List.product [1 ..< mn + 1] [0 ..< ml + 1]) ([], [])"

text \<open>The loop \<open>for idx in sym_idx[sym]\<close> for one species.\<close>

definition species_entry :: "string list \<Rightarrow> (string \<times> nat list) list \<Rightarrow> (string \<times> nat) list
    \<Rightarrow> (string \<times> nat) list \<Rightarrow> string \<Rightarrow> error + (string \<times> (bool list \<times> nat list) list)" where
  "species_entry labels sym_idx0 max_n0 max_l0 symb =
     ebind (dict_get sym_idx0 symb) (\<lambda>idxs.
     ebind (dict_get max_n0 symb) (\<lambda>mn.
     ebind (dict_get max_l0 symb) (\<lambda>ml.
     ebind (emap (atom_entry labels symb mn ml) idxs) (\<lambda>per_atom.
       Inr (symb, per_atom)))))"

definition BasisPadder_init :: "mol \<Rightarrow> error + BasisPadder" where
  "BasisPadder_init m =
     ebind (efold count_atom (enumerate 0 (atom_pure_symbol m)) ([], [])) (\<lambda>cnt_idx.
     ebind (efold max_label (ao_labels_nofmt m) ([], [])) (\<lambda>mx.
     ebind (emap (species_entry (ao_labels m) (snd cnt_idx) (snd mx) (fst mx))
              (map fst (snd mx))) (\<lambda>ents.
       Inr \<lparr>bp_mol = m, sym_cnt = fst cnt_idx, max_l = fst mx, max_n = snd mx,
            indexing_l = map (\<lambda>(symb, per_atom). (symb, map fst per_atom)) ents,
            indexing_r = map (\<lambda>(symb, per_atom). (symb, map snd per_atom)) ents\<rparr>)))"

subsection \<open>The Mole objects of pyscf\<close>

text \<open>
  The part of a pyscf \<open>Mole\<close> that \<open>BasisPadder\<close> reads, for a molecule given as the list of
  its atoms, each with its symbol and its shells \<open>(n, l)\<close> in the order of the labels. pyscf
  lists the orbitals atom by atom and shell by shell, \<open>2 * l + 1\<close> spherical orbitals per
  shell, and formats a label as \<open>'%d %s %s%-4s'\<close>.
\<close>

definition m_name :: "nat \<Rightarrow> nat \<Rightarrow> string" where
  "m_name l k =
     (if l = 0 then []
      else if l = 1 then [''x'', ''y'', ''z''] ! k
      else if l = 2 then [''xy'', ''yz'', ''z^2'', ''xz'', ''x2-y2''] ! k
      else if k < l then ''-'' @ dec (l - k) else ''+'' @ dec (k - l))"

definition shell_labels :: "nat \<Rightarrow> string \<Rightarrow> nat \<times> nat
    \<Rightarrow> (nat \<times> string \<times> nat \<times> char \<times> string) list" where
  "shell_labels ia symb nl =
     (case nl of (n, l) \<Rightarrow>
        map (\<lambda>k. (ia, symb, n, ''spdfghi'' ! l, m_name l k)) [0 ..< 2 * l + 1])"

definition atom_labels :: "nat \<times> string \<times> (nat \<times> nat) list
    \<Rightarrow> (nat \<times> string \<times> nat \<times> char \<times> string) list" where
  "atom_labels a = (case a of (ia, symb, shells) \<Rightarrow> concat (map (shell_labels ia symb) shells))"

definition fmt_label :: "nat \<times> string \<times> nat \<times> char \<times> string \<Rightarrow> string" where
  "fmt_label label =
     (case label of (ia, symb, n, c, m) \<Rightarrow>
        dec ia @ '' '' @ symb @ '' '' @ dec n @ [c] @ m @ replicate (4 - length m) (CHR '' ''))"

fun ao_slices :: "nat \<Rightarrow> nat list \<Rightarrow> (nat \<times> nat) list" where
  "ao_slices s [] = []"
| "ao_slices s (k # ks) = (s, s + k) # ao_slices (s + k) ks"

definition pyscf_mol :: "(string \<times> (nat \<times> nat) list) list \<Rightarrow> mol" where
  "pyscf_mol atoms =
     \<lparr>atom_pure_symbol = map fst atoms,
      ao_labels_nofmt = concat (map atom_labels (enumerate 0 atoms)),
      ao_labels = map fmt_label (concat (map atom_labels (enumerate 0 atoms))),
      aoslice_by_atom = ao_slices 0 (map (\<lambda>a. length (atom_labels (0, a))) atoms)\<rparr>"

text \<open>
  The molecules considered: every symbol is a non-empty word of letters, every atom has a
  shell, the shells of an atom are distinct with \<open>n \<ge> 1\<close> and \<open>l \<le> 6\<close>, and atoms of one
  symbol carry the same shells (pyscf assigns the basis by symbol).
\<close>

definition is_letter :: "char \<Rightarrow> bool" where
  "is_letter c = (c \<in> set ''abcdefghijklmnopqrstuvwxyzABCDEFGHIJKLMNOPQRSTUVWXYZ'')"

definition wf_atom :: "string \<times> (nat \<times> nat) list \<Rightarrow> bool" where
  "wf_atom a =
     (case a of (symb, shells) \<Rightarrow>
        symb \<noteq> [] \<and> list_all is_letter symb \<and> shells \<noteq> [] \<and> distinct shells
        \<and> list_all (\<lambda>(n, l). 1 \<le> n \<and> l \<le> 6) shells)"

definition wf_atoms :: "(string \<times> (nat \<times> nat) list) list \<Rightarrow> bool" where
  "wf_atoms atoms =
     (list_all wf_atom atoms
      \<and> list_all (\<lambda>a. list_all (\<lambda>b. fst a \<noteq> fst b \<or> snd a = snd b) atoms) atoms)"

section \<open>A molecule for the examples\<close>

text \<open>
  An oxygen atom with the shells 1s, 2s, 2p and two hydrogen atoms with the shell 1s; the
  padder that \<open>BasisPadder_init\<close> builds for it; a species-agnostic projector that has
  recorded a partition of one and two atoms.
\<close>

definition water :: "(string \<times> (nat \<times> nat) list) list" where
  "water = [(''O'', [(1, 0), (2, 0), (2, 1)]), (''H'', [(1, 0)]), (''H'', [(1, 0)])]"

definition water_padder :: BasisPadder where
  "water_padder =
     \<lparr>bp_mol = pyscf_mol water,
      sym_cnt = [(''O'', 1), (''H'', 2)],
      max_l = [(''O'', 1), (''H'', 0)],
      max_n = [(''O'', 2), (''H'', 1)],
      indexing_l = [(''O'', [[True, False, False, False, True, True, True, True]]),
                    (''H'', [[True], [True]])],
      indexing_r = [(''O'', [[0, 1, 2, 3, 4]]), (''H'', [[5], [6]])]\<rparr>"

definition water_projector :: PySCFProjector where
  "water_projector =
     \<lparr>spec_agnostic = True, delta = False, dm_init = [[0]],
      eri3c = [[[1, 1, 1, 1, 1, 1, 1]]], bp = water_padder,
      spec_partition = Some [(''O'', 1), (''H'', 2)]\<rparr>"

section \<open>projector/projector_gaussian.py: GaussianProjector.get_basis_rep\<close>

text \<open>
  What \<open>project\<close> and \<open>get_basis_rep\<close> call outside the two files modelled here:
  \<^item> \<open>window_coeff\<close>: lines 96 to 124 of \<open>project\<close>, the list \<open>coeff\<close> computed from the density,
    the position and the shells of the species by \<open>self.box_around\<close>, \<open>self.angulars_real\<close>,
    \<open>self.radials\<close>, \<open>self.V_cell\<close> and \<open>np.einsum\<close> (methods of the parent class and numpy);
    as a function of these arguments;
  \<^item> \<open>gto_M\<close>: \<open>gto.M(atom='O 0 0 0', basis={'O': gtobasis.parse(basis_string)})\<close> of pyscf;
  \<^item> \<open>float_str\<close>: the text of a coordinate in \<open>'{}{}{}{}'.format(spec, pos[0], pos[1], pos[2])\<close>.
\<close>

record ('r, 'b) gp_env =
  window_coeff :: "'r \<Rightarrow> real list \<Rightarrow> 'b \<Rightarrow> error + real list"
  gto_M :: "string \<Rightarrow> error + mol"
  float_str :: "real \<Rightarrow> string"

text \<open>
  The fields of the projector that \<open>get_basis_rep\<close> reads and writes: \<open>self.basis\<close>,
  \<open>self.basis_strings\<close> and the cache \<open>self.all_angs\<close>.
\<close>

record ('b, 'g) GaussianProjector =
  basis :: "(string \<times> 'b) list"
  basis_strings :: "(string \<times> string) list"
  all_angs :: "string \<rightharpoonup> 'g option"

text \<open>
  \<open>project(rho, pos, basis_instructions, basis_string, angs)\<close>: the body never reads \<open>angs\<close>,
  and the second component of the result is always \<open>None\<close>.
  \<open>np.array(coeff).reshape(1, -1)\<close> is the one row of all entries.
\<close>

definition project :: "('r, 'b) gp_env \<Rightarrow> 'r \<Rightarrow> real list \<Rightarrow> 'b \<Rightarrow> string \<Rightarrow> 'g option
    \<Rightarrow> error + (real list list \<times> 'g option)" where
  "project env rho pos basis_instructions basis_string angs =
     ebind (window_coeff env rho pos basis_instructions) (\<lambda>coeff.
     ebind (gto_M env basis_string) (\<lambda>m.
     ebind (BasisPadder_init m) (\<lambda>padder.
     ebind (pad_basis padder coeff) (\<lambda>padded.
     ebind (dict_get padded ''O'') (\<lambda>rows.
       Inr ([concat rows], None))))))"

text \<open>
  The body of the loop \<open>for pos, spec in zip(positions, species)\<close>, on the dict \<open>basis_rep\<close>
  and the cache; \<open>use_memory\<close> is \<open>config.UseMemory\<close>.
\<close>

definition project_atom :: "('r, 'b) gp_env \<Rightarrow> bool \<Rightarrow> ('b, 'g) GaussianProjector \<Rightarrow> 'r
    \<Rightarrow> (string \<times> real list list list) list \<times> (string \<rightharpoonup> 'g option)
    \<Rightarrow> real list \<times> string
    \<Rightarrow> error + ((string \<times> real list list list) list \<times> (string \<rightharpoonup> 'g option))" where
  "project_atom env use_memory self rho st a =
     (case st of (basis_rep, angs_cache) \<Rightarrow> case a of (pos, spec) \<Rightarrow>
       (let basis_rep1 = (if map_of basis_rep spec = None then dict_set basis_rep spec []
                          else basis_rep)
        in ebind (list_get pos 0) (\<lambda>p0.
           ebind (list_get pos 1) (\<lambda>p1.
           ebind (list_get pos 2) (\<lambda>p2.
           ebind (dict_get (basis self) spec) (\<lambda>shells.
           ebind (dict_get (basis_strings self) spec) (\<lambda>basis_string.
           ebind (project env rho pos shells basis_string
                    (case angs_cache (spec @ float_str env p0 @ float_str env p1 @ float_str env p2)
                     of None \<Rightarrow> None | Some cached \<Rightarrow> cached)) (\<lambda>res.
           ebind (dict_get basis_rep1 spec) (\<lambda>projections.
             Inr (dict_set basis_rep1 spec (projections @ [fst res]),
                  if use_memory
                  then angs_cache(spec @ float_str env p0 @ float_str env p1 @ float_str env p2
                                  \<mapsto> snd res)
                  else angs_cache))))))))))"

text \<open>The loop: the dict built so far and the cache, which keeps its writes when an atom raises.\<close>

fun project_atoms :: "('r, 'b) gp_env \<Rightarrow> bool \<Rightarrow> ('b, 'g) GaussianProjector \<Rightarrow> 'r
    \<Rightarrow> (real list \<times> string) list
    \<Rightarrow> (string \<times> real list list list) list \<Rightarrow> (string \<rightharpoonup> 'g option)
    \<Rightarrow> (error + (string \<times> real list list list) list) \<times> (string \<rightharpoonup> 'g option)" where
  "project_atoms env use_memory self rho [] basis_rep angs_cache = (Inr basis_rep, angs_cache)"
| "project_atoms env use_memory self rho (a # rest) basis_rep angs_cache =
     (case project_atom env use_memory self rho (basis_rep, angs_cache) a of
        Inl err \<Rightarrow> (Inl err, angs_cache)
      | Inr st \<Rightarrow> project_atoms env use_memory self rho rest (fst st) (snd st))"

text \<open>
  \<open>GaussianProjector.get_basis_rep(rho, positions, species)\<close>: the result and the projector
  after the call. The last loop concatenates the projections of each species.
\<close>

definition GaussianProjector_get_basis_rep :: "('r, 'b) gp_env \<Rightarrow> bool
    \<Rightarrow> ('b, 'g) GaussianProjector \<Rightarrow> 'r \<Rightarrow> real list list \<Rightarrow> string list
    \<Rightarrow> (error + (string \<times> real list list) list) \<times> ('b, 'g) GaussianProjector" where
  "GaussianProjector_get_basis_rep env use_memory self rho positions species =
     (case project_atoms env use_memory self rho (zip positions species) [] (all_angs self) of
        (res, angs_cache) \<Rightarrow>
          (ebind res (emap (\<lambda>(spec, projections).
                       ebind (np_concatenate0 projections) (\<lambda>rows. Inr (spec, rows)))),
           self\<lparr>all_angs := angs_cache\<rparr>))"

text \<open>
  A projector for the examples: one species \<open>O\<close> with one s shell, whose window coefficients
  are the single value 1.
\<close>

definition example_env :: "(unit, unit) gp_env" where
  "example_env =
     \<lparr>window_coeff = (\<lambda>rho pos shells. Inr [1]),
      gto_M = (\<lambda>basis_string. Inr (pyscf_mol [(''O'', [(1, 0)])])),
      float_str = (\<lambda>x. ''0.0'')\<rparr>"

definition example_projector :: "(unit, unit) GaussianProjector" where
  "example_projector =
     \<lparr>basis = [(''O'', ())], basis_strings = [(''O'', ''O S'')], all_angs = Map.empty\<rparr>"

section \<open>Properties of the radial functions\<close>

lemma map_zip_fst_same: "length f = length r \<Longrightarrow> map (\<lambda>(fx, x). fx) (zip f r) = f"
  by (induction f r rule: list_induct2) simp_all

lemma map2_add_add:
  "length f = length r \<Longrightarrow>
   map (\<lambda>(fx, x). fx + h x) (zip (map (\<lambda>(fx, x). fx + k x) (zip f r)) r)
     = map (\<lambda>(fx, x). fx + (k x + h x)) (zip f r)" for h k :: "real \<Rightarrow> real"
  by (induction f r rule: list_induct2) simp_all

lemma g_loop_closed:
  "l < length GAMMA \<Longrightarrow> length f = length r \<Longrightarrow>
   g_loop r l acs N f =
     Inr (N + (\<Sum>(a, c) \<leftarrow> acs. norm_const l a),
          map (\<lambda>(fx, x). fx + (\<Sum>(a, c) \<leftarrow> acs. exp (- a * x ^ 2) * c)) (zip f r))"
proof (induction acs arbitrary: N f)
  case Nil
  then show ?case by (simp add: map_zip_fst_same)
next
  case (Cons ac acs)
  obtain a c where ac: "ac = (a, c)" by (cases ac)
  let ?f' = "map (\<lambda>(fx, x). fx + exp (- a * x ^ 2) * c) (zip f r)"
  have len: "length ?f' = length r"
    using Cons.prems by simp
  show ?case
    using Cons.prems Cons.IH [OF Cons.prems(1) len]
    by (simp add: ac map2_add_add add.assoc)
qed

lemma length_GAMMA: "length GAMMA = 7"
  by (simp add: GAMMA_def)

lemma g_closed:
  assumes "np_max r_o = Inr rmax" and "l \<le> 6"
  shows "g r r_o alpha l coeff = Inr (map (g_entry rmax alpha l coeff) r)"
proof -
  have l: "l < length GAMMA" using assms(2) by (simp add: length_GAMMA)
  have "map (\<lambda>(fx, x). if x > rmax then 0 else fx * q x)
        (zip (map (\<lambda>(fx, x). fx + k x) (zip (map (\<lambda>_. 0) r) r)) r)
      = map (\<lambda>x. if x > rmax then 0 else k x * q x) r" for q k :: "real \<Rightarrow> real"
    by (induction r) simp_all
  then show ?thesis
    using assms(1) by (simp add: g_def g_loop_closed [OF l] g_entry_def [abs_def])
qed

lemma fc_at_cutoff: "rmax \<noteq> 0 \<Longrightarrow> fc rmax rmax = 0"
  by (simp add: fc_def)

lemma fc_at_origin: "fc rmax 0 = 1"
  by (simp add: fc_def)

lemma norm_const_half_pos: "0 < norm_const 0 (1 / 2)"
  by (simp add: norm_const_def GAMMA_def)

text \<open>
  C3. The claim: \<open>g\<close> returns \<open>\<Sum>\<^sub>i N\<^sub>i * coeff\<^sub>i * exp (- alpha\<^sub>i * r\<^sup>2)\<close>, each primitive under
  its own constant, times \<open>r ^ l\<close> and the envelope. The code adds the constants up in \<open>N\<close>
  and the primitives in \<open>f\<close>, and multiplies the two sums. For the shell of two primitives
  \<open>alpha = [1/2, 1/2]\<close>, \<open>coeff = [1, 1]\<close>, \<open>l = 0\<close> at \<open>r = 0\<close> with \<open>r_o = 1\<close> the code returns
  four times the (positive) constant of one primitive, the claimed formula twice.
\<close>

theorem g_sums_constants_apart:
  "g [0] [1] [1 / 2, 1 / 2] 0 [1, 1] = Inr [4 * norm_const 0 (1 / 2)]
   \<and> g_spec [0] 1 [1 / 2, 1 / 2] 0 [1, 1] = [2 * norm_const 0 (1 / 2)]
   \<and> 4 * norm_const 0 (1 / 2) \<noteq> 2 * norm_const 0 (1 / 2)"
proof -
  have m: "np_max [1] = Inr 1" by (simp add: np_max_def)
  have "g [0] [1] [1 / 2, 1 / 2] 0 [1, 1] = Inr [4 * norm_const 0 (1 / 2)]"
    by (simp add: g_closed [OF m] g_entry_def fc_at_origin)
  moreover have "g_spec [0] 1 [1 / 2, 1 / 2] 0 [1, 1] = [2 * norm_const 0 (1 / 2)]"
    by (simp add: g_spec_def fc_at_origin)
  moreover have "4 * norm_const 0 (1 / 2) \<noteq> 2 * norm_const 0 (1 / 2)"
    using norm_const_half_pos by simp
  ultimately show ?thesis by simp
qed

text \<open>
  C4. With a positive cutoff \<open>np.max(r_o)\<close> and \<open>l\<close> within the table \<open>GAMMA\<close>, \<open>g\<close> returns an
  array as long as \<open>r\<close> whose entry is 0 wherever the radius is at or beyond the cutoff:
  beyond it by the assignment \<open>f[r>np.max(r_o)] = 0\<close>, at it because the envelope is 0 there.
\<close>

theorem g_zero_from_cutoff:
  assumes "np_max r_o = Inr rmax" and "0 < rmax" and "l \<le> 6"
  shows "\<exists>f. g r r_o alpha l coeff = Inr f \<and> length f = length r
           \<and> (\<forall>i < length r. rmax \<le> r ! i \<longrightarrow> f ! i = 0)"
proof (intro exI conjI allI impI)
  show "g r r_o alpha l coeff = Inr (map (g_entry rmax alpha l coeff) r)"
    by (rule g_closed [OF assms(1) assms(3)])
  show "length (map (g_entry rmax alpha l coeff) r) = length r" by simp
next
  fix i assume i: "i < length r" and ge: "rmax \<le> r ! i"
  have "g_entry rmax alpha l coeff (r ! i) = 0"
  proof (cases "rmax < r ! i")
    case True
    then show ?thesis by (simp add: g_entry_def)
  next
    case False
    with ge have "r ! i = rmax" by simp
    moreover have "fc rmax rmax = 0" using assms(2) by (simp add: fc_at_cutoff)
    ultimately show ?thesis by (simp add: g_entry_def)
  qed
  with i show "map (g_entry rmax alpha l coeff) r ! i = 0" by simp
qed

theorem g_zero_from_cutoff_witness:
  "np_max [2] = Inr 2 \<and> (0::real) < 2 \<and> (1::nat) \<le> 6
   \<and> (\<exists>f. g [1, 2, 3] [2] [1] 1 [1] = Inr f \<and> length f = length [1, 2, 3 :: real]
          \<and> (\<forall>i < length [1, 2, 3 :: real]. 2 \<le> [1, 2, 3 :: real] ! i \<longrightarrow> f ! i = 0))"
proof -
  have m: "np_max [2] = Inr 2" by (simp add: np_max_def)
  have p: "(0::real) < 2" by simp
  have l: "(1::nat) \<le> 6" by simp
  show ?thesis
    by (intro conjI) (rule m, rule p, rule l, rule g_zero_from_cutoff [OF m p l])
qed




section \<open>Properties of PySCFProjector\<close>





lemma split_species_keeps_X:
  "dEdC ''X'' = Some x \<Longrightarrow>
   \<exists>d. split_species part r dEdC = (Inr (), d) \<and> d ''X'' \<noteq> None
     \<and> (\<forall>k \<in> fst ` set part. d k \<noteq> None)
     \<and> (\<forall>k. k \<notin> fst ` set part \<longrightarrow> d k = dEdC k)"
proof (induction part arbitrary: r dEdC x)
  case Nil
  then show ?case by simp
next
  case (Cons p part)
  obtain symb n where p: "p = (symb, n)" by (cases p)
  let ?d1 = "dEdC(symb \<mapsto> slice_axis1 r (r + n) x)"
  have "\<exists>y. ?d1 ''X'' = Some y" using Cons.prems by simp
  then obtain y where y: "?d1 ''X'' = Some y" ..
  have "\<exists>d. split_species part (r + n) ?d1 = (Inr (), d) \<and> d ''X'' \<noteq> None
     \<and> (\<forall>k \<in> fst ` set part. d k \<noteq> None)
     \<and> (\<forall>k. k \<notin> fst ` set part \<longrightarrow> d k = ?d1 k)"
    by (rule Cons.IH) (rule y)
  then obtain d where d:
    "split_species part (r + n) ?d1 = (Inr (), d)" "d ''X'' \<noteq> None"
    "\<forall>k \<in> fst ` set part. d k \<noteq> None" "\<forall>k. k \<notin> fst ` set part \<longrightarrow> d k = ?d1 k"
    by blast
  have "d symb \<noteq> None"
  proof (cases "symb \<in> fst ` set part")
    case True
    with d(3) show ?thesis by blast
  next
    case False
    with d(4) show ?thesis by simp
  qed
  with d Cons.prems show ?case by (auto simp: p)
qed

lemma snd_get_V_unpad: "snd (get_V_unpad self d) = d"
  by (simp add: get_V_unpad_def split: sum.splits)

text \<open>
  C9. In species-agnostic mode, when the dict of the caller has the key \<open>'X'\<close> and the
  partition has been recorded: after \<open>get_V\<close> the dict of the caller has no key \<open>'X'\<close>, has
  a key for every species of the partition, is unchanged at every other key, and so is not
  the dict that was passed.
\<close>

theorem get_V_mutates_dEdC:
  assumes "spec_agnostic self" and "spec_partition self = Some part" and "dEdC ''X'' = Some x"
  shows "snd (get_V self dEdC) ''X'' = None
     \<and> (\<forall>k \<in> fst ` set part. k \<noteq> ''X'' \<longrightarrow> snd (get_V self dEdC) k \<noteq> None)
     \<and> (\<forall>k. k \<notin> fst ` set part \<longrightarrow> k \<noteq> ''X'' \<longrightarrow> snd (get_V self dEdC) k = dEdC k)
     \<and> snd (get_V self dEdC) \<noteq> dEdC"
proof -
  have "\<exists>d. split_species part 0 dEdC = (Inr (), d) \<and> d ''X'' \<noteq> None
     \<and> (\<forall>k \<in> fst ` set part. d k \<noteq> None)
     \<and> (\<forall>k. k \<notin> fst ` set part \<longrightarrow> d k = dEdC k)"
    by (rule split_species_keeps_X) (rule assms(3))
  then obtain d where d:
    "split_species part 0 dEdC = (Inr (), d)" "d ''X'' \<noteq> None"
    "\<forall>k \<in> fst ` set part. d k \<noteq> None" "\<forall>k. k \<notin> fst ` set part \<longrightarrow> d k = dEdC k"
    by blast
  from d(2) obtain y where y: "d ''X'' = Some y" by blast
  have eq: "snd (get_V self dEdC) = d(''X'' := None)"
    using assms(1,2) d(1) y by (simp add: get_V_def snd_get_V_unpad)
  have "snd (get_V self dEdC) ''X'' \<noteq> dEdC ''X''"
    using assms(3) by (simp add: eq)
  then have "snd (get_V self dEdC) \<noteq> dEdC" by metis
  then show ?thesis using d(3,4) by (simp add: eq)
qed

theorem get_V_mutates_dEdC_witness:
  "spec_agnostic water_projector
   \<and> spec_partition water_projector = Some [(''O'', 1), (''H'', 2)]
   \<and> [''X'' \<mapsto> Arr3 [[[1, 2], [3, 4], [5, 6 :: real]]]] ''X''
       = Some (Arr3 [[[1, 2], [3, 4], [5, 6]]])
   \<and> snd (get_V water_projector [''X'' \<mapsto> Arr3 [[[1, 2], [3, 4], [5, 6]]]]) ''X'' = None
   \<and> snd (get_V water_projector [''X'' \<mapsto> Arr3 [[[1, 2], [3, 4], [5, 6]]]]) ''O'' \<noteq> None
   \<and> snd (get_V water_projector [''X'' \<mapsto> Arr3 [[[1, 2], [3, 4], [5, 6]]]])
       \<noteq> [''X'' \<mapsto> Arr3 [[[1, 2], [3, 4], [5, 6]]]]"
proof -
  let ?d = "[''X'' \<mapsto> Arr3 [[[1, 2], [3, 4], [5, 6 :: real]]]]"
  have a: "spec_agnostic water_projector" by (simp add: water_projector_def)
  have p: "spec_partition water_projector = Some [(''O'', 1), (''H'', 2)]"
    by (simp add: water_projector_def)
  have x: "?d ''X'' = Some (Arr3 [[[1, 2], [3, 4], [5, 6]]])" by simp
  note t = get_V_mutates_dEdC [where dEdC = ?d, OF a p x]
  have "snd (get_V water_projector ?d) ''O'' \<noteq> None"
    using t [THEN conjunct2, THEN conjunct1] by simp
  with a p x t [THEN conjunct1] t [THEN conjunct2, THEN conjunct2, THEN conjunct2]
  show ?thesis by simp
qed






section \<open>Properties of GaussianProjector.get_basis_rep\<close>

lemma zip_take_min:
  "zip (take (min (length xs) (length ys)) xs) (take (min (length xs) (length ys)) ys) = zip xs ys"
proof (induction xs arbitrary: ys)
  case Nil
  then show ?case by simp
next
  case (Cons x xs)
  then show ?case by (cases ys) simp_all
qed

text \<open>
  C5, as the claim states it: with no position and one species the lengths differ, and
  the call returns the empty dict without raising.
\<close>

theorem get_basis_rep_length_mismatch_counterexample:
  "length ([] :: real list list) \<noteq> length [''O'']
   \<and> GaussianProjector_get_basis_rep example_env False example_projector () [] [''O'']
       = (Inr [], example_projector)"
  by (simp add: GaussianProjector_get_basis_rep_def example_projector_def ebind_def)

text \<open>
  C5, amended. \<open>get_basis_rep\<close> never compares the lengths of \<open>positions\<close> and \<open>species\<close>: the
  loop runs over \<open>zip(positions, species)\<close>, so the call does exactly what it does on the two
  arguments cut to the shorter length, and the entries beyond are ignored.
\<close>

theorem get_basis_rep_truncates:
  "GaussianProjector_get_basis_rep env use_memory self rho positions species
   = GaussianProjector_get_basis_rep env use_memory self rho
       (take (min (length positions) (length species)) positions)
       (take (min (length positions) (length species)) species)"
  by (simp add: GaussianProjector_get_basis_rep_def zip_take_min)

lemma project_ignores_angs:
  "project env rho pos shells basis_string angs = project env rho pos shells basis_string angs'"
  by (simp add: project_def)

lemma map_sum_ebind: "map_sum id f (ebind m k) = ebind m (\<lambda>x. map_sum id f (k x))"
  by (cases m) (simp_all add: ebind_def)

lemma project_atom_cache_free:
  fixes self self' :: "('b, 'g) GaussianProjector" and cache cache' :: "string \<rightharpoonup> 'g option"
  assumes "basis self' = basis self" and "basis_strings self' = basis_strings self"
  shows "map_sum id fst (project_atom env um self rho (basis_rep, cache) a)
       = map_sum id fst (project_atom env um' self' rho (basis_rep, cache') a)"
proof -
  obtain pos spec where a: "a = (pos, spec)" by (cases a)
  show ?thesis
    by (simp add: project_atom_def a assms Let_def project_def map_sum_ebind)
qed

lemma project_atoms_cache_free:
  fixes self self' :: "('b, 'g) GaussianProjector" and cache cache' :: "string \<rightharpoonup> 'g option"
  assumes "basis self' = basis self" and "basis_strings self' = basis_strings self"
  shows "fst (project_atoms env um self rho ps basis_rep cache)
       = fst (project_atoms env um' self' rho ps basis_rep cache')"
proof (induction ps arbitrary: basis_rep cache cache')
  case Nil
  then show ?case by simp
next
  case (Cons a ps)
  have eq: "map_sum id fst (project_atom env um self rho (basis_rep, cache) a)
      = map_sum id fst (project_atom env um' self' rho (basis_rep, cache') a)"
    by (rule project_atom_cache_free [OF assms])
  show ?case
  proof (cases "project_atom env um self rho (basis_rep, cache) a")
    case (Inl err)
    with eq obtain err' where "project_atom env um' self' rho (basis_rep, cache') a = Inl err'"
      "err' = err"
      by (cases "project_atom env um' self' rho (basis_rep, cache') a") simp_all
    with Inl show ?thesis by simp
  next
    case (Inr st)
    with eq obtain st' where st': "project_atom env um' self' rho (basis_rep, cache') a = Inr st'"
      "fst st' = fst st"
      by (cases "project_atom env um' self' rho (basis_rep, cache') a") simp_all
    show ?thesis
      using Inr st' Cons.IH [of "fst st" "snd st" "snd st'"] by simp
  qed
qed

lemma get_basis_rep_cache_free:
  fixes self self' :: "('b, 'g) GaussianProjector"
  assumes "basis self' = basis self" and "basis_strings self' = basis_strings self"
  shows "fst (GaussianProjector_get_basis_rep env um self rho positions species)
       = fst (GaussianProjector_get_basis_rep env um' self' rho positions species)"
  using project_atoms_cache_free [OF assms, of env um rho "zip positions species" "[]"
      "all_angs self" um' "all_angs self'"]
  by (simp add: GaussianProjector_get_basis_rep_def case_prod_unfold)

lemma get_basis_rep_keeps_basis:
  "basis (snd (GaussianProjector_get_basis_rep env um self rho positions species)) = basis self
   \<and> basis_strings (snd (GaussianProjector_get_basis_rep env um self rho positions species))
       = basis_strings self"
  by (simp add: GaussianProjector_get_basis_rep_def split: prod.splits)

text \<open>
  C7. A second call of \<open>get_basis_rep\<close> on the projector that the first call left behind,
  with the same density, positions and species, returns what the first call returned (a
  result or an error), with the cache of angular grids switched on or off; and the result
  with the cache equals the result without it. The functions called outside the file are
  taken as functions of their arguments.
\<close>

theorem get_basis_rep_deterministic:
  "fst (GaussianProjector_get_basis_rep env use_memory
          (snd (GaussianProjector_get_basis_rep env use_memory self rho positions species))
          rho positions species)
   = fst (GaussianProjector_get_basis_rep env use_memory self rho positions species)
   \<and> fst (GaussianProjector_get_basis_rep env True self rho positions species)
     = fst (GaussianProjector_get_basis_rep env False self rho positions species)"
proof -
  note k = get_basis_rep_keeps_basis [of env use_memory self rho positions species]
  have "fst (GaussianProjector_get_basis_rep env use_memory self rho positions species)
      = fst (GaussianProjector_get_basis_rep env use_memory
          (snd (GaussianProjector_get_basis_rep env use_memory self rho positions species))
          rho positions species)"
    by (rule get_basis_rep_cache_free) (simp_all add: k)
  moreover have "fst (GaussianProjector_get_basis_rep env True self rho positions species)
      = fst (GaussianProjector_get_basis_rep env False self rho positions species)"
    by (rule get_basis_rep_cache_free) simp_all
  ultimately show ?thesis by simp
qed

end
